theory Spec2Isabelle
  imports Main
begin

section \<open>Settings loader (backend/config.py)\<close>

text \<open>
  Python strings are modelled as \<^typ>\<open>string\<close>; a non-ASCII character is its UTF-8 bytes.
  The process environment and the parsed contents of the file \<^verbatim>\<open>.env\<close> are maps from
  variable names to raw string values. A file that does not exist is the empty map.
  \<^verbatim>\<open>case_sensitive = True\<close>: a field is looked up under exactly its declared name.
\<close>

type_synonym source = "string \<rightharpoonup> string"

text \<open>
  The entries of a pydantic \<^verbatim>\<open>ValidationError\<close>: the field's name (its \<^verbatim>\<open>loc\<close>) and the
  kind of failure. The library validates every field and reports all failures together.
\<close>

datatype error_type = Missing | IntParsing | BoolParsing

type_synonym error_details = "(string \<times> error_type) list"

datatype validation_error = ValidationError error_details

text \<open>
  The conversions of a raw string to \<^verbatim>\<open>int\<close> and to \<^verbatim>\<open>bool\<close> are the library's; they
  are not part of this repository and are taken as parameters (\<open>None\<close>: the string is
  rejected).
\<close>

record validators =
  int_parsing :: "string \<Rightarrow> int option"
  bool_parsing :: "string \<Rightarrow> bool option"

text \<open>The environment has priority over the file; the declared default comes last.\<close>

definition field_value :: "source \<Rightarrow> source \<Rightarrow> string \<Rightarrow> string option" where
  "field_value env dotenv name =
     (case env name of Some v \<Rightarrow> Some v | None \<Rightarrow> dotenv name)"

definition from_default :: "string \<Rightarrow> 'a option \<Rightarrow> error_details + 'a" where
  "from_default name dflt =
     (case dflt of Some d \<Rightarrow> Inr d | None \<Rightarrow> Inl [(name, Missing)])"

text \<open>A field annotated \<^verbatim>\<open>str\<close>; the second argument is the default, \<open>None\<close> when the
  declaration gives none (the field is required).\<close>

definition str_field :: "source \<Rightarrow> source \<Rightarrow> string \<Rightarrow> string option \<Rightarrow> error_details + string" where
  "str_field env dotenv name dflt =
     (case field_value env dotenv name of
        Some raw \<Rightarrow> Inr raw
      | None \<Rightarrow> from_default name dflt)"

text \<open>A field annotated \<^verbatim>\<open>Optional[str]\<close>: a raw string is the value itself.\<close>

definition optional_str_field ::
  "source \<Rightarrow> source \<Rightarrow> string \<Rightarrow> string option option \<Rightarrow> error_details + string option" where
  "optional_str_field env dotenv name dflt =
     (case field_value env dotenv name of
        Some raw \<Rightarrow> Inr (Some raw)
      | None \<Rightarrow> from_default name dflt)"

definition int_field ::
  "validators \<Rightarrow> source \<Rightarrow> source \<Rightarrow> string \<Rightarrow> int option \<Rightarrow> error_details + int" where
  "int_field cv env dotenv name dflt =
     (case field_value env dotenv name of
        Some raw \<Rightarrow>
          (case int_parsing cv raw of
             Some i \<Rightarrow> Inr i
           | None \<Rightarrow> Inl [(name, IntParsing)])
      | None \<Rightarrow> from_default name dflt)"

definition bool_field ::
  "validators \<Rightarrow> source \<Rightarrow> source \<Rightarrow> string \<Rightarrow> bool option \<Rightarrow> error_details + bool" where
  "bool_field cv env dotenv name dflt =
     (case field_value env dotenv name of
        Some raw \<Rightarrow>
          (case bool_parsing cv raw of
             Some b \<Rightarrow> Inr b
           | None \<Rightarrow> Inl [(name, BoolParsing)])
      | None \<Rightarrow> from_default name dflt)"

text \<open>The class \<^verbatim>\<open>Settings\<close>: one record field per annotated attribute, in the
  order of the declaration.\<close>

record settings =
  DATABASE_HOST :: string
  DATABASE_PORT :: int
  DATABASE_SERVICE :: string
  DATABASE_USER :: string
  DATABASE_PASSWORD :: string
  SECRET_KEY :: string
  ALGORITHM :: string
  ACCESS_TOKEN_EXPIRE_MINUTES :: int
  OCI_COMPARTMENT_ID :: string
  OCI_REGION :: string
  OCI_CONFIG_FILE :: "string option"
  APP_NAME :: string
  DEBUG :: bool
  CORS_ORIGINS :: string

text \<open>
  Validation of the next field joins the outcome so far: the object is built only when
  every field validated, and the failures of all fields are collected in order.
\<close>

fun validated :: "error_details + ('a \<Rightarrow> 'b) \<Rightarrow> error_details + 'a \<Rightarrow> error_details + 'b" where
  "validated (Inr f) (Inr x) = Inr (f x)"
| "validated (Inr f) (Inl es) = Inl es"
| "validated (Inl es) (Inr x) = Inl es"
| "validated (Inl es) (Inl es') = Inl (es @ es')"

definition new_settings ::
  "string \<Rightarrow> int \<Rightarrow> string \<Rightarrow> string \<Rightarrow> string \<Rightarrow> string \<Rightarrow> string \<Rightarrow> int \<Rightarrow> string \<Rightarrow> string
     \<Rightarrow> string option \<Rightarrow> string \<Rightarrow> bool \<Rightarrow> string \<Rightarrow> settings" where
  "new_settings host port service user password secret algorithm expire compartment region
     config_file name debug cors =
     \<lparr>DATABASE_HOST = host, DATABASE_PORT = port, DATABASE_SERVICE = service,
      DATABASE_USER = user, DATABASE_PASSWORD = password, SECRET_KEY = secret,
      ALGORITHM = algorithm, ACCESS_TOKEN_EXPIRE_MINUTES = expire,
      OCI_COMPARTMENT_ID = compartment, OCI_REGION = region, OCI_CONFIG_FILE = config_file,
      APP_NAME = name, DEBUG = debug, CORS_ORIGINS = cors\<rparr>"

definition validate_fields :: "validators \<Rightarrow> source \<Rightarrow> source \<Rightarrow> error_details + settings" where
  "validate_fields cv env dotenv =
     validated (validated (validated (validated (validated (validated (validated
     (validated (validated (validated (validated (validated (validated (validated
       (Inr new_settings)
       (str_field env dotenv ''DATABASE_HOST'' (Some ''oracle-db'')))
       (int_field cv env dotenv ''DATABASE_PORT'' (Some 1521)))
       (str_field env dotenv ''DATABASE_SERVICE'' (Some ''FREEPDB1'')))
       (str_field env dotenv ''DATABASE_USER'' (Some ''therapist_app'')))
       (str_field env dotenv ''DATABASE_PASSWORD'' None))
       (str_field env dotenv ''SECRET_KEY'' None))
       (str_field env dotenv ''ALGORITHM'' (Some ''HS256'')))
       (int_field cv env dotenv ''ACCESS_TOKEN_EXPIRE_MINUTES'' (Some 30)))
       (str_field env dotenv ''OCI_COMPARTMENT_ID'' None))
       (str_field env dotenv ''OCI_REGION'' (Some ''us-ashburn-1'')))
       (optional_str_field env dotenv ''OCI_CONFIG_FILE'' (Some (Some ''/app/.oci/config''))))
       (str_field env dotenv ''APP_NAME'' (Some ''Therapist Office App'')))
       (bool_field cv env dotenv ''DEBUG'' (Some False)))
       (str_field env dotenv ''CORS_ORIGINS'' (Some ''http://localhost:3000''))"

text \<open>\<^verbatim>\<open>Settings()\<close>: the object, or the \<^verbatim>\<open>ValidationError\<close> the constructor raises.\<close>

definition Settings :: "validators \<Rightarrow> source \<Rightarrow> source \<Rightarrow> validation_error + settings" where
  "Settings cv env dotenv =
     (case validate_fields cv env dotenv of
        Inl es \<Rightarrow> Inl (ValidationError es)
      | Inr s \<Rightarrow> Inr s)"


section \<open>Session provider (backend/database.py)\<close>

subsection \<open>The engine\<close>

text \<open>\<^verbatim>\<open>str(n)\<close> for an integer, as an f-string renders it: decimal, \<^verbatim>\<open>-\<close> when negative.\<close>

fun digits :: "nat \<Rightarrow> string" where
  "digits n =
     (if n < 10 then [''0123456789'' ! n]
      else digits (n div 10) @ [''0123456789'' ! (n mod 10)])"

declare digits.simps [simp del]

definition str_int :: "int \<Rightarrow> string" where
  "str_int i = (if i < 0 then CHR ''-'' # digits (nat (- i)) else digits (nat i))"

definition DATABASE_URL :: "settings \<Rightarrow> string" where
  "DATABASE_URL s =
     ''oracle+oracledb://'' @ DATABASE_USER s @ '':''
       @ DATABASE_PASSWORD s @ ''@''
       @ DATABASE_HOST s @ '':'' @ str_int (DATABASE_PORT s) @ ''/''
       @ DATABASE_SERVICE s"

text \<open>The keyword arguments \<^verbatim>\<open>create_engine\<close> is called with.\<close>

record Engine =
  url :: string
  echo :: bool
  pool_pre_ping :: bool
  pool_size :: nat
  max_overflow :: nat

definition engine :: "settings \<Rightarrow> Engine" where
  "engine s =
     \<lparr>url = DATABASE_URL s,
      echo = DEBUG s,
      pool_pre_ping = True,
      pool_size = 10,
      max_overflow = 20\<rparr>"

subsection \<open>The database and the observable state of the process\<close>

text \<open>
  An exception raised by the driver or by SQLAlchemy: an instance of \<^verbatim>\<open>Exception\<close>
  (what \<^verbatim>\<open>except Exception\<close> catches), with the text \<^verbatim>\<open>str(e)\<close> gives.
\<close>

datatype exn = Exception string

fun str :: "exn \<Rightarrow> string" where
  "str (Exception msg) = msg"

text \<open>
  The state of the database, as far as the program can tell: whether acquiring a
  connection raises, and whether executing a statement on a connection raises.
\<close>

record database =
  connect_error :: "exn option"
  execute_error :: "string \<Rightarrow> exn option"

datatype level = INFO | ERROR

type_synonym log_record = "level \<times> string"

text \<open>
  What the program does to the world: the records it logs, the connections it asks the
  pool for (\<open>checkouts\<close>), the connections it gives back by leaving a \<^verbatim>\<open>with\<close> block
  (\<open>releases\<close>), the sessions it creates (numbered from 0), every call of \<^verbatim>\<open>close\<close> on
  a session (a session gives its connection back inside \<^verbatim>\<open>close\<close>), and whether the
  server accepts connections. Logging, giving a connection back and closing a session
  are taken not to raise.
\<close>

record world =
  log_records :: "log_record list"
  checkouts :: nat
  releases :: nat
  sessions :: nat
  close_calls :: "nat list"
  serving :: bool

definition logger_info :: "string \<Rightarrow> world \<Rightarrow> world" where
  "logger_info msg w = w\<lparr>log_records := log_records w @ [(INFO, msg)]\<rparr>"

definition logger_error :: "string \<Rightarrow> world \<Rightarrow> world" where
  "logger_error msg w = w\<lparr>log_records := log_records w @ [(ERROR, msg)]\<rparr>"

text \<open>\<^verbatim>\<open>engine.connect()\<close>, \<^verbatim>\<open>conn.execute(stmt)\<close>, and leaving the \<^verbatim>\<open>with\<close> block.\<close>

definition engine_connect :: "database \<Rightarrow> world \<Rightarrow> (exn + unit) \<times> world" where
  "engine_connect db w =
     (let w' = w\<lparr>checkouts := Suc (checkouts w)\<rparr>
      in case connect_error db of
           Some e \<Rightarrow> (Inl e, w')
         | None \<Rightarrow> (Inr (), w'))"

definition conn_execute :: "database \<Rightarrow> string \<Rightarrow> world \<Rightarrow> (exn + unit) \<times> world" where
  "conn_execute db stmt w =
     (case execute_error db stmt of
        Some e \<Rightarrow> (Inl e, w)
      | None \<Rightarrow> (Inr (), w))"

definition conn_exit :: "world \<Rightarrow> world" where
  "conn_exit w = w\<lparr>releases := Suc (releases w)\<rparr>"

subsection \<open>The connectivity probe\<close>

text \<open>
  \<^verbatim>\<open>test_connection\<close>. The result is a sum so that an exception leaving the function would
  be a value \<open>Inl e\<close>. An exception in the \<^verbatim>\<open>with\<close> block leaves the block (the connection
  is given back) before the handler logs it.
\<close>

definition test_connection :: "database \<Rightarrow> world \<Rightarrow> (exn + bool) \<times> world" where
  "test_connection db w =
     (case engine_connect db w of
        (Inl e, w1) \<Rightarrow>
          (Inr False, logger_error (''Database connection failed: '' @ str e) w1)
      | (Inr conn, w1) \<Rightarrow>
          (case conn_execute db ''SELECT 1 FROM DUAL'' w1 of
             (Inl e, w2) \<Rightarrow>
               (Inr False,
                logger_error (''Database connection failed: '' @ str e) (conn_exit w2))
           | (Inr result, w2) \<Rightarrow>
               (Inr True, conn_exit (logger_info ''Database connection successful'' w2))))"

subsection \<open>Scoped sessions\<close>

text \<open>\<^verbatim>\<open>SessionLocal = sessionmaker(autocommit=False, autoflush=False, bind=engine)\<close>:
  each call makes a new session; making one does not contact the database.\<close>

record Session =
  ident :: nat
  autocommit :: bool
  autoflush :: bool
  bind :: Engine

definition SessionLocal :: "settings \<Rightarrow> world \<Rightarrow> Session \<times> world" where
  "SessionLocal s w =
     (\<lparr>ident = sessions w, autocommit = False, autoflush = False, bind = engine s\<rparr>,
      w\<lparr>sessions := Suc (sessions w)\<rparr>)"

text \<open>\<^verbatim>\<open>db.execute(stmt)\<close>: the session takes a connection from its engine, then executes.\<close>

definition Session_execute :: "database \<Rightarrow> Session \<Rightarrow> string \<Rightarrow> world \<Rightarrow> (exn + unit) \<times> world" where
  "Session_execute db sess stmt w =
     (case engine_connect db w of
        (Inl e, w1) \<Rightarrow> (Inl e, w1)
      | (Inr conn, w1) \<Rightarrow> conn_execute db stmt w1)"

definition Session_close :: "Session \<Rightarrow> world \<Rightarrow> world" where
  "Session_close sess w = w\<lparr>close_calls := close_calls w @ [ident sess]\<rparr>"

text \<open>
  The generator \<^verbatim>\<open>get_db\<close> runs in two parts. \<open>get_db\<close> is the part up to the \<^verbatim>\<open>yield\<close>:
  it gives the session to the consumer. \<open>get_db_finally\<close> is the part after it, entered
  in one of the three ways a suspended generator is resumed: \<^verbatim>\<open>next\<close> (the consumer is
  done), \<^verbatim>\<open>throw\<close> (the consumer raised) or \<^verbatim>\<open>close\<close>. The \<^verbatim>\<open>finally\<close> clause runs in
  each; a thrown exception goes on after it.
\<close>

datatype 'e resumed = Next | Throw 'e | Close

definition get_db :: "settings \<Rightarrow> world \<Rightarrow> Session \<times> world" where
  "get_db s w = SessionLocal s w"

definition get_db_finally :: "Session \<Rightarrow> 'e resumed \<Rightarrow> world \<Rightarrow> 'e option \<times> world" where
  "get_db_finally db r w =
     (let w' = Session_close db w
      in case r of
           Throw e \<Rightarrow> (Some e, w')
         | _ \<Rightarrow> (None, w'))"

text \<open>
  \<^verbatim>\<open>Depends(get_db)\<close>: the framework takes the session from the generator, runs the
  consumer with it, and resumes the generator according to how the consumer ended.
\<close>

definition Depends_get_db ::
  "settings \<Rightarrow> (Session \<Rightarrow> world \<Rightarrow> ('e + 'a) \<times> world) \<Rightarrow> world \<Rightarrow> ('e + 'a) \<times> world" where
  "Depends_get_db s consumer w =
     (case get_db s w of
        (db, w1) \<Rightarrow>
          (case consumer db w1 of
             (Inl e, w2) \<Rightarrow>
               (case get_db_finally db (Throw e) w2 of
                  (Some e', w3) \<Rightarrow> (Inl e', w3)
                | (None, w3) \<Rightarrow> (Inl e, w3))
           | (Inr v, w2) \<Rightarrow>
               (case get_db_finally db (Next :: 'e resumed) w2 of
                  (Some e', w3) \<Rightarrow> (Inl e', w3)
                | (None, w3) \<Rightarrow> (Inr v, w3))))"


section \<open>The application (backend/main.py)\<close>

subsection \<open>CORS middleware\<close>

text \<open>
  \<^verbatim>\<open>s.split(sep)\<close> with a one-character separator: the pieces between the occurrences
  of the separator, empty pieces included. \<open>split_first\<close> gives the first piece and the
  rest of the pieces.
\<close>

fun split_first :: "char \<Rightarrow> string \<Rightarrow> string \<times> string list" where
  "split_first sep [] = ([], [])"
| "split_first sep (c # cs) =
     (case split_first sep cs of
        (p, ps) \<Rightarrow> if c = sep then ([], p # ps) else (c # p, ps))"

definition str_split :: "char \<Rightarrow> string \<Rightarrow> string list" where
  "str_split sep s = (case split_first sep s of (p, ps) \<Rightarrow> p # ps)"

definition origins :: "settings \<Rightarrow> string list" where
  "origins s = str_split CHR '','' (CORS_ORIGINS s)"

record CORSMiddleware =
  allow_origins :: "string list"
  allow_credentials :: bool
  allow_methods :: "string list"
  allow_headers :: "string list"

definition add_middleware :: "settings \<Rightarrow> CORSMiddleware" where
  "add_middleware s =
     \<lparr>allow_origins = origins s,
      allow_credentials = True,
      allow_methods = [''*''],
      allow_headers = [''*'']\<rparr>"

record FastAPI =
  title :: string
  version :: string
  description :: string
  middleware :: CORSMiddleware

definition app :: "settings \<Rightarrow> FastAPI" where
  "app s =
     \<lparr>title = APP_NAME s,
      version = ''1.0.0'',
      description = ''HIPAA-compliant treatment planning application'',
      middleware = add_middleware s\<rparr>"

subsection \<open>Startup\<close>

definition startup_event :: "database \<Rightarrow> world \<Rightarrow> (exn + unit) \<times> world" where
  "startup_event db w =
     (case test_connection db (logger_info ''Starting Therapist Office API...'' w) of
        (Inl e, w1) \<Rightarrow> (Inl e, w1)
      | (Inr ok, w1) \<Rightarrow>
          (if ok then (Inr (), logger_info ''Database connection verified'' w1)
           else (Inr (), logger_error ''Database connection failed!'' w1)))"

text \<open>
  Running the program: the import of \<^verbatim>\<open>config\<close> constructs the settings, the modules
  build the engine and the application from them, and the server runs the startup
  handler before it accepts connections. An exception at import ends the process; an
  exception out of the startup handler makes the server give up.
\<close>

datatype failure = ConfigurationError validation_error | StartupError exn

definition main ::
  "validators \<Rightarrow> source \<Rightarrow> source \<Rightarrow> database \<Rightarrow> world \<Rightarrow> (failure + settings \<times> FastAPI) \<times> world" where
  "main cv env dotenv db w =
     (case Settings cv env dotenv of
        Inl err \<Rightarrow> (Inl (ConfigurationError err), w)
      | Inr s \<Rightarrow>
          (case startup_event db w of
             (Inl e, w1) \<Rightarrow> (Inl (StartupError e), w1)
           | (Inr u, w1) \<Rightarrow> (Inr (s, app s), w1\<lparr>serving := True\<rparr>)))"

subsection \<open>Endpoints\<close>

text \<open>
  A handler returns a dictionary (its items in order) or raises: an \<^verbatim>\<open>HTTPException\<close>
  with its status code and detail, or any other exception.
\<close>

type_synonym body = "(string \<times> string) list"

datatype raised = Error exn | HTTPException nat string

definition HTTP_503_SERVICE_UNAVAILABLE :: nat where
  "HTTP_503_SERVICE_UNAVAILABLE = 503"

definition root :: "world \<Rightarrow> (raised + body) \<times> world" where
  "root w =
     (Inr [(''message'', ''Therapist Office API''),
           (''version'', ''1.0.0''),
           (''status'', ''running'')], w)"

definition health_check :: "database \<Rightarrow> Session \<Rightarrow> world \<Rightarrow> (raised + body) \<times> world" where
  "health_check db sess w =
     (case Session_execute db sess ''SELECT 1 FROM DUAL'' w of
        (Inr result, w1) \<Rightarrow>
          (Inr [(''status'', ''healthy''),
                (''database'', ''connected''),
                (''version'', ''1.0.0'')], w1)
      | (Inl e, w1) \<Rightarrow>
          (Inl (HTTPException HTTP_503_SERVICE_UNAVAILABLE ''Service unavailable''),
           logger_error (''Health check failed: '' @ str e) w1))"

definition api_info :: "settings \<Rightarrow> world \<Rightarrow> (raised + body) \<times> world" where
  "api_info s w =
     (Inr [(''app_name'', APP_NAME s),
           (''version'', ''1.0.0''),
           (''database_host'', DATABASE_HOST s),
           (''oci_region'', OCI_REGION s)], w)"

text \<open>
  What the framework sends: 200 with the returned dictionary as JSON, the status code
  and detail of an \<^verbatim>\<open>HTTPException\<close>, and 500 for any other exception.
\<close>

datatype content = JSON body | PlainText string

record response =
  status_code :: nat
  content :: content

fun respond :: "raised + body \<Rightarrow> response" where
  "respond (Inr b) = \<lparr>status_code = 200, content = JSON b\<rparr>"
| "respond (Inl (HTTPException code detail)) =
     \<lparr>status_code = code, content = JSON [(''detail'', detail)]\<rparr>"
| "respond (Inl (Error e)) =
     \<lparr>status_code = 500, content = PlainText ''Internal Server Error''\<rparr>"

text \<open>The three routes registered on the application, all for \<^verbatim>\<open>GET\<close>.\<close>

datatype route = Root | Health | ApiInfo

fun path :: "route \<Rightarrow> string" where
  "path Root = ''/''"
| "path Health = ''/health''"
| "path ApiInfo = ''/api/info''"

fun endpoint :: "settings \<Rightarrow> database \<Rightarrow> route \<Rightarrow> world \<Rightarrow> (raised + body) \<times> world" where
  "endpoint s db Root w = root w"
| "endpoint s db Health w = Depends_get_db s (health_check db) w"
| "endpoint s db ApiInfo w = api_info s w"

definition serve :: "settings \<Rightarrow> database \<Rightarrow> route \<Rightarrow> world \<Rightarrow> response \<times> world" where
  "serve s db r w = (case endpoint s db r w of (res, w') \<Rightarrow> (respond res, w'))"


section \<open>Notions the properties are stated with\<close>

text \<open>A field is unset: neither the environment nor the settings file has it.\<close>

definition unset :: "source \<Rightarrow> source \<Rightarrow> string \<Rightarrow> bool" where
  "unset env dotenv name \<longleftrightarrow> env name = None \<and> dotenv name = None"

text \<open>
  The outcome of the trivial query \<^verbatim>\<open>SELECT 1 FROM DUAL\<close> against a database: \<open>None\<close>
  when a connection is obtained and the statement executes, otherwise the exception.
\<close>

definition trivial_query :: "database \<Rightarrow> exn option" where
  "trivial_query db =
     (case connect_error db of
        Some e \<Rightarrow> Some e
      | None \<Rightarrow> execute_error db ''SELECT 1 FROM DUAL'')"

text \<open>\<^verbatim>\<open>sep.join(pieces)\<close>, the inverse of splitting.\<close>

fun str_join :: "char \<Rightarrow> string list \<Rightarrow> string" where
  "str_join sep [] = []"
| "str_join sep [p] = p"
| "str_join sep (p # q # ps) = p @ sep # str_join sep (q # ps)"

text \<open>Two configurations that agree on every field but the three secrets.\<close>

definition differ_only_in_secrets :: "settings \<Rightarrow> settings \<Rightarrow> bool" where
  "differ_only_in_secrets s1 s2 \<longleftrightarrow>
     DATABASE_HOST s1 = DATABASE_HOST s2 \<and>
     DATABASE_PORT s1 = DATABASE_PORT s2 \<and>
     DATABASE_SERVICE s1 = DATABASE_SERVICE s2 \<and>
     DATABASE_USER s1 = DATABASE_USER s2 \<and>
     ALGORITHM s1 = ALGORITHM s2 \<and>
     ACCESS_TOKEN_EXPIRE_MINUTES s1 = ACCESS_TOKEN_EXPIRE_MINUTES s2 \<and>
     OCI_REGION s1 = OCI_REGION s2 \<and>
     OCI_CONFIG_FILE s1 = OCI_CONFIG_FILE s2 \<and>
     APP_NAME s1 = APP_NAME s2 \<and>
     DEBUG s1 = DEBUG s2 \<and>
     CORS_ORIGINS s1 = CORS_ORIGINS s2"


text \<open>An entry of the error details of a validation outcome.\<close>

fun reported :: "string \<times> error_type \<Rightarrow> error_details + 'a \<Rightarrow> bool" where
  "reported e (Inl es) = (e \<in> set es)"
| "reported e (Inr v) = False"

section \<open>Example inputs\<close>

text \<open>A database that refuses connections, one whose query fails, and one that works.\<close>

definition db_down :: database where
  "db_down =
     \<lparr>connect_error = Some (Exception ''ORA-12541: no listener''),
      execute_error = (\<lambda>stmt. None)\<rparr>"


definition db_up :: database where
  "db_up = \<lparr>connect_error = None, execute_error = (\<lambda>stmt. None)\<rparr>"

text \<open>A process that has done nothing yet, and one that has served two requests.\<close>

definition fresh_world :: world where
  "fresh_world =
     \<lparr>log_records = [], checkouts = 0, releases = 0, sessions = 0, close_calls = [],
      serving = False\<rparr>"

definition busy_world :: world where
  "busy_world =
     \<lparr>log_records = [], checkouts = 3, releases = 1, sessions = 2, close_calls = [0, 1],
      serving = True\<rparr>"

text \<open>Conversions that accept a few strings, an environment with the three required
  variables and a port, one without the secret key, and the settings the first gives.\<close>

definition example_validators :: validators where
  "example_validators =
     \<lparr>int_parsing = map_of [(''1522'', 1522), (''60'', 60)],
      bool_parsing = map_of [(''true'', True), (''false'', False)]\<rparr>"

definition example_env :: source where
  "example_env =
     map_of [(''DATABASE_PASSWORD'', ''pw''), (''SECRET_KEY'', ''k''),
             (''OCI_COMPARTMENT_ID'', ''ocid1''), (''DATABASE_PORT'', ''1522'')]"

definition env_without_key :: source where
  "env_without_key =
     map_of [(''DATABASE_PASSWORD'', ''pw''), (''OCI_COMPARTMENT_ID'', ''ocid1'')]"

definition example_settings :: settings where
  "example_settings =
     \<lparr>DATABASE_HOST = ''oracle-db'', DATABASE_PORT = 1522, DATABASE_SERVICE = ''FREEPDB1'',
      DATABASE_USER = ''therapist_app'', DATABASE_PASSWORD = ''pw'', SECRET_KEY = ''k'',
      ALGORITHM = ''HS256'', ACCESS_TOKEN_EXPIRE_MINUTES = 30,
      OCI_COMPARTMENT_ID = ''ocid1'', OCI_REGION = ''us-ashburn-1'',
      OCI_CONFIG_FILE = Some ''/app/.oci/config'', APP_NAME = ''Therapist Office App'',
      DEBUG = False, CORS_ORIGINS = ''http://localhost:3000''\<rparr>"

definition two_origins :: settings where
  "two_origins = example_settings\<lparr>CORS_ORIGINS := ''http://a.test,http://b.test''\<rparr>"

definition other_secrets :: settings where
  "other_secrets =
     example_settings\<lparr>DATABASE_PASSWORD := ''hunter2'', SECRET_KEY := ''zzz'',
       OCI_COMPARTMENT_ID := ''ocid2''\<rparr>"


section \<open>Auxiliary facts\<close>

lemmas field_defs =
  str_field_def optional_str_field_def int_field_def bool_field_def field_value_def
  from_default_def

lemmas probe_defs =
  test_connection_def trivial_query_def engine_connect_def conn_execute_def conn_exit_def
  logger_info_def logger_error_def

lemma reported_validated [simp]:
  "reported e (validated f x) \<longleftrightarrow> reported e f \<or> reported e x"
  by (cases f; cases x) auto

lemma validated_InrE:
  assumes "validated f x = Inr y"
  obtains g v where "f = Inr g" and "x = Inr v" and "y = g v"
  using assms by (cases f; cases x) auto

lemma reported_Settings:
  "reported e (validate_fields cv env dotenv) \<Longrightarrow>
     \<exists>es. Settings cv env dotenv = Inl (ValidationError es) \<and> e \<in> set es"
  by (cases "validate_fields cv env dotenv") (simp_all add: Settings_def)

lemma required_unset_reported:
  assumes "name \<in> {''DATABASE_PASSWORD'', ''SECRET_KEY'', ''OCI_COMPARTMENT_ID''}"
    and "unset env dotenv name"
  shows "reported (name, Missing) (validate_fields cv env dotenv)"
  using assms by (auto simp add: validate_fields_def field_defs unset_def)

lemma Settings_Inr:
  "Settings cv env dotenv = Inr s \<Longrightarrow> validate_fields cv env dotenv = Inr s"
  by (simp add: Settings_def split: sum.splits)

text \<open>When validation succeeds, every attribute is the value its field validated to.\<close>

lemma validate_fields_Inr:
  assumes "validate_fields cv env dotenv = Inr s"
  shows "str_field env dotenv ''DATABASE_HOST'' (Some ''oracle-db'') = Inr (DATABASE_HOST s)
    \<and> int_field cv env dotenv ''DATABASE_PORT'' (Some 1521) = Inr (DATABASE_PORT s)
    \<and> str_field env dotenv ''DATABASE_SERVICE'' (Some ''FREEPDB1'') = Inr (DATABASE_SERVICE s)
    \<and> str_field env dotenv ''DATABASE_USER'' (Some ''therapist_app'') = Inr (DATABASE_USER s)
    \<and> str_field env dotenv ''DATABASE_PASSWORD'' None = Inr (DATABASE_PASSWORD s)
    \<and> str_field env dotenv ''SECRET_KEY'' None = Inr (SECRET_KEY s)
    \<and> str_field env dotenv ''ALGORITHM'' (Some ''HS256'') = Inr (ALGORITHM s)
    \<and> int_field cv env dotenv ''ACCESS_TOKEN_EXPIRE_MINUTES'' (Some 30)
        = Inr (ACCESS_TOKEN_EXPIRE_MINUTES s)
    \<and> str_field env dotenv ''OCI_COMPARTMENT_ID'' None = Inr (OCI_COMPARTMENT_ID s)
    \<and> str_field env dotenv ''OCI_REGION'' (Some ''us-ashburn-1'') = Inr (OCI_REGION s)
    \<and> optional_str_field env dotenv ''OCI_CONFIG_FILE'' (Some (Some ''/app/.oci/config''))
        = Inr (OCI_CONFIG_FILE s)
    \<and> str_field env dotenv ''APP_NAME'' (Some ''Therapist Office App'') = Inr (APP_NAME s)
    \<and> bool_field cv env dotenv ''DEBUG'' (Some False) = Inr (DEBUG s)
    \<and> str_field env dotenv ''CORS_ORIGINS'' (Some ''http://localhost:3000'')
        = Inr (CORS_ORIGINS s)"
  using assms unfolding validate_fields_def
  by (elim validated_InrE) (simp add: new_settings_def)

lemma str_field_unset:
  "unset env dotenv name \<Longrightarrow> str_field env dotenv name (Some d) = Inr v \<Longrightarrow> v = d"
  by (simp add: field_defs unset_def)

lemma optional_str_field_unset:
  "unset env dotenv name \<Longrightarrow> optional_str_field env dotenv name (Some d) = Inr v \<Longrightarrow> v = d"
  by (simp add: field_defs unset_def)

lemma int_field_unset:
  "unset env dotenv name \<Longrightarrow> int_field cv env dotenv name (Some d) = Inr v \<Longrightarrow> v = d"
  by (simp add: field_defs unset_def)

lemma bool_field_unset:
  "unset env dotenv name \<Longrightarrow> bool_field cv env dotenv name (Some d) = Inr v \<Longrightarrow> v = d"
  by (simp add: field_defs unset_def)

lemma int_field_set:
  "field_value env dotenv name = Some raw \<Longrightarrow> int_field cv env dotenv name dflt = Inr v
     \<Longrightarrow> int_parsing cv raw = Some v"
  by (simp add: int_field_def split: option.splits)

lemma bool_field_set:
  "field_value env dotenv name = Some raw \<Longrightarrow> bool_field cv env dotenv name dflt = Inr v
     \<Longrightarrow> bool_parsing cv raw = Some v"
  by (simp add: bool_field_def split: option.splits)

lemma example_settings_loaded:
  "Settings example_validators example_env Map.empty = Inr example_settings"
  by (simp add: Settings_def validate_fields_def field_defs new_settings_def
      example_validators_def example_env_def example_settings_def)

text \<open>The health endpoint in closed form: the session is made, used and closed.\<close>

lemma endpoint_Health:
  "endpoint s db Health w =
     (case trivial_query db of
        None \<Rightarrow>
          (Inr [(''status'', ''healthy''), (''database'', ''connected''),
                (''version'', ''1.0.0'')],
           w\<lparr>sessions := Suc (sessions w), checkouts := Suc (checkouts w),
             close_calls := close_calls w @ [sessions w]\<rparr>)
      | Some e \<Rightarrow>
          (Inl (HTTPException 503 ''Service unavailable''),
           w\<lparr>sessions := Suc (sessions w), checkouts := Suc (checkouts w),
             log_records := log_records w @ [(ERROR, ''Health check failed: '' @ str e)],
             close_calls := close_calls w @ [sessions w]\<rparr>))"
  by (simp add: Depends_get_db_def get_db_def SessionLocal_def get_db_finally_def
      Session_close_def health_check_def Session_execute_def HTTP_503_SERVICE_UNAVAILABLE_def
      probe_defs Let_def split: option.splits)

lemma split_first_join:
  "split_first sep s = (p, ps) \<Longrightarrow> str_join sep (p # ps) = s"
proof (induction s arbitrary: p ps)
  case Nil
  then show ?case by simp
next
  case (Cons c cs)
  obtain q qs where q: "split_first sep cs = (q, qs)"
    by (cases "split_first sep cs")
  with Cons.IH have "str_join sep (q # qs) = cs" by simp
  with Cons.prems q show ?case by (cases qs) (auto split: if_splits)
qed

lemma split_first_no_sep:
  "split_first sep s = (p, ps) \<Longrightarrow> sep \<notin> set p \<and> (\<forall>q \<in> set ps. sep \<notin> set q)"
proof (induction s arbitrary: p ps)
  case Nil
  then show ?case by simp
next
  case (Cons c cs)
  obtain q qs where q: "split_first sep cs = (q, qs)"
    by (cases "split_first sep cs")
  with Cons.IH have "sep \<notin> set q \<and> (\<forall>x \<in> set qs. sep \<notin> set x)" by simp
  with Cons.prems q show ?case by (auto split: if_splits)
qed

lemma split_first_length:
  "split_first sep s = (p, ps) \<Longrightarrow> length ps = count_list s sep"
proof (induction s arbitrary: p ps)
  case Nil
  then show ?case by simp
next
  case (Cons c cs)
  obtain q qs where q: "split_first sep cs = (q, qs)"
    by (cases "split_first sep cs")
  with Cons.IH have "length qs = count_list cs sep" by simp
  with Cons.prems q show ?case by (auto split: if_splits)
qed

lemma split_first_absent: "sep \<notin> set s \<Longrightarrow> split_first sep s = (s, [])"
  by (induction s) auto


section \<open>The settings loader\<close>

text \<open>
  C3. For each of the three required fields (\<^verbatim>\<open>DATABASE_PASSWORD\<close>, \<^verbatim>\<open>SECRET_KEY\<close>,
  \<^verbatim>\<open>OCI_COMPARTMENT_ID\<close>): when the field is in neither the environment nor the settings
  file, constructing the settings raises a validation error whose details name the field
  as missing, whatever the other variables are. No settings object exists, so no default
  stands in for the field. The program ends with that error at the import, with the world
  as it was: nothing is logged, the database is not contacted and the server does not
  start to accept connections.
\<close>

theorem required_field_missing:
  assumes "name \<in> {''DATABASE_PASSWORD'', ''SECRET_KEY'', ''OCI_COMPARTMENT_ID''}"
    and "unset env dotenv name"
  shows "\<exists>es. Settings cv env dotenv = Inl (ValidationError es)
           \<and> (name, Missing) \<in> set es
           \<and> main cv env dotenv db w = (Inl (ConfigurationError (ValidationError es)), w)"
proof -
  from required_unset_reported [OF assms] obtain es
    where "Settings cv env dotenv = Inl (ValidationError es)" and "(name, Missing) \<in> set es"
    using reported_Settings by blast
  then show ?thesis by (simp add: main_def)
qed

theorem required_field_missing_witness:
  "unset env_without_key Map.empty ''SECRET_KEY''
   \<and> Settings example_validators env_without_key Map.empty
       = Inl (ValidationError [(''SECRET_KEY'', Missing)])
   \<and> main example_validators env_without_key Map.empty db_up fresh_world
       = (Inl (ConfigurationError (ValidationError [(''SECRET_KEY'', Missing)])), fresh_world)
   \<and> \<not> serving (snd (main example_validators env_without_key Map.empty db_up fresh_world))"
proof -
  have u: "unset env_without_key Map.empty ''SECRET_KEY''"
    by (simp add: unset_def env_without_key_def)
  have v: "Settings example_validators env_without_key Map.empty
             = Inl (ValidationError [(''SECRET_KEY'', Missing)])"
    by (simp add: Settings_def validate_fields_def field_defs env_without_key_def)
  from required_field_missing [of "''SECRET_KEY''" env_without_key Map.empty
      example_validators db_up fresh_world] u v
  show ?thesis by (auto simp: fresh_world_def)
qed

text \<open>
  C6. When the settings are constructed, every optional field that is in neither the
  environment nor the settings file carries its declared default: \<^verbatim>\<open>DATABASE_HOST\<close>
  \<^verbatim>\<open>oracle-db\<close>, \<^verbatim>\<open>DATABASE_PORT\<close> 1521, \<^verbatim>\<open>DATABASE_SERVICE\<close> \<^verbatim>\<open>FREEPDB1\<close>, \<^verbatim>\<open>DATABASE_USER\<close>
  \<^verbatim>\<open>therapist_app\<close>, \<^verbatim>\<open>ALGORITHM\<close> \<^verbatim>\<open>HS256\<close>, \<^verbatim>\<open>ACCESS_TOKEN_EXPIRE_MINUTES\<close> 30,
  \<^verbatim>\<open>OCI_REGION\<close> \<^verbatim>\<open>us-ashburn-1\<close>, \<^verbatim>\<open>OCI_CONFIG_FILE\<close> \<^verbatim>\<open>/app/.oci/config\<close>, \<^verbatim>\<open>APP_NAME\<close>
  \<^verbatim>\<open>Therapist Office App\<close>, \<^verbatim>\<open>DEBUG\<close> false, \<^verbatim>\<open>CORS_ORIGINS\<close> \<^verbatim>\<open>http://localhost:3000\<close>.
  Every field has a value of its declared type (the object is a value of the record
  type), and an integer or boolean field that is set holds what the conversion of its
  raw string gave, never the raw string.
\<close>

theorem optional_field_defaults:
  assumes "Settings cv env dotenv = Inr s"
  shows "(unset env dotenv ''DATABASE_HOST'' \<longrightarrow> DATABASE_HOST s = ''oracle-db'')
       \<and> (unset env dotenv ''DATABASE_PORT'' \<longrightarrow> DATABASE_PORT s = 1521)
       \<and> (unset env dotenv ''DATABASE_SERVICE'' \<longrightarrow> DATABASE_SERVICE s = ''FREEPDB1'')
       \<and> (unset env dotenv ''DATABASE_USER'' \<longrightarrow> DATABASE_USER s = ''therapist_app'')
       \<and> (unset env dotenv ''ALGORITHM'' \<longrightarrow> ALGORITHM s = ''HS256'')
       \<and> (unset env dotenv ''ACCESS_TOKEN_EXPIRE_MINUTES'' \<longrightarrow>
            ACCESS_TOKEN_EXPIRE_MINUTES s = 30)
       \<and> (unset env dotenv ''OCI_REGION'' \<longrightarrow> OCI_REGION s = ''us-ashburn-1'')
       \<and> (unset env dotenv ''OCI_CONFIG_FILE'' \<longrightarrow>
            OCI_CONFIG_FILE s = Some ''/app/.oci/config'')
       \<and> (unset env dotenv ''APP_NAME'' \<longrightarrow> APP_NAME s = ''Therapist Office App'')
       \<and> (unset env dotenv ''DEBUG'' \<longrightarrow> DEBUG s = False)
       \<and> (unset env dotenv ''CORS_ORIGINS'' \<longrightarrow> CORS_ORIGINS s = ''http://localhost:3000'')
       \<and> (\<forall>raw. field_value env dotenv ''DATABASE_PORT'' = Some raw \<longrightarrow>
             int_parsing cv raw = Some (DATABASE_PORT s))
       \<and> (\<forall>raw. field_value env dotenv ''ACCESS_TOKEN_EXPIRE_MINUTES'' = Some raw \<longrightarrow>
             int_parsing cv raw = Some (ACCESS_TOKEN_EXPIRE_MINUTES s))
       \<and> (\<forall>raw. field_value env dotenv ''DEBUG'' = Some raw \<longrightarrow>
             bool_parsing cv raw = Some (DEBUG s))"
proof -
  note fields = validate_fields_Inr [OF Settings_Inr [OF assms]]
  show ?thesis
    using fields
    by (auto dest: str_field_unset optional_str_field_unset int_field_unset bool_field_unset
        int_field_set bool_field_set)
qed

theorem optional_field_defaults_witness:
  "Settings example_validators example_env Map.empty = Inr example_settings
   \<and> unset example_env Map.empty ''DATABASE_HOST''
   \<and> DATABASE_HOST example_settings = ''oracle-db''
   \<and> unset example_env Map.empty ''DEBUG''
   \<and> DEBUG example_settings = False
   \<and> unset example_env Map.empty ''ACCESS_TOKEN_EXPIRE_MINUTES''
   \<and> ACCESS_TOKEN_EXPIRE_MINUTES example_settings = 30
   \<and> field_value example_env Map.empty ''DATABASE_PORT'' = Some ''1522''
   \<and> int_parsing example_validators ''1522'' = Some (DATABASE_PORT example_settings)"
proof -
  have u: "unset example_env Map.empty ''DATABASE_HOST''"
    "unset example_env Map.empty ''DEBUG''"
    "unset example_env Map.empty ''ACCESS_TOKEN_EXPIRE_MINUTES''"
    "field_value example_env Map.empty ''DATABASE_PORT'' = Some ''1522''"
    by (simp_all add: unset_def field_value_def example_env_def)
  from optional_field_defaults [OF example_settings_loaded] u example_settings_loaded
  show ?thesis by simp
qed


section \<open>The session provider\<close>



text \<open>
  C4. Every run of \<^verbatim>\<open>get_db\<close> makes exactly one session, the next unused one, and that
  session is closed exactly once however the consumer's scope ends: the generator is
  resumed normally (the consumer completed or returned early), an exception of the
  consumer is thrown into it, or it is closed. The exception of the consumer goes on
  after the session is closed. The world \<open>w2\<close> is the one the consumer leaves; the
  consumer itself has not closed the session, and no session was closed before it was
  made.
\<close>

theorem get_db_closes_once:
  assumes "\<forall>i \<in> set (close_calls w). i < sessions w"
    and "get_db s w = (db, w1)"
    and "count_list (close_calls w2) (ident db) = count_list (close_calls w1) (ident db)"
  shows "ident db = sessions w
       \<and> sessions w1 = Suc (sessions w)
       \<and> close_calls w1 = close_calls w
       \<and> count_list (close_calls (snd (get_db_finally db r w2))) (ident db) = 1
       \<and> sessions (snd (get_db_finally db r w2)) = sessions w2
       \<and> fst (get_db_finally db r w2) = (case r of Throw e \<Rightarrow> Some e | _ \<Rightarrow> None)"
proof -
  from assms(2) have db: "ident db = sessions w" and w1: "sessions w1 = Suc (sessions w)"
    and c1: "close_calls w1 = close_calls w"
    by (auto simp: get_db_def SessionLocal_def)
  from assms(1) have "sessions w \<notin> set (close_calls w)" by auto
  with db c1 assms(3) have zero: "count_list (close_calls w2) (ident db) = 0" by simp
  have once: "count_list (close_calls (snd (get_db_finally db r w2))) (ident db) = 1"
    using zero by (simp add: get_db_finally_def Session_close_def Let_def split: resumed.splits)
  have same: "sessions (snd (get_db_finally db r w2)) = sessions w2"
    by (simp add: get_db_finally_def Session_close_def Let_def split: resumed.splits)
  have res: "fst (get_db_finally db r w2) = (case r of Throw e \<Rightarrow> Some e | _ \<Rightarrow> None)"
    by (simp add: get_db_finally_def Let_def split: resumed.splits)
  from db w1 c1 once same res show ?thesis by simp
qed

theorem get_db_closes_once_witness:
  "close_calls busy_world = [0, 1]
   \<and> sessions busy_world = 2
   \<and> ident (fst (get_db example_settings busy_world)) = 2
   \<and> fst (health_check db_down (fst (get_db example_settings busy_world))
        (snd (get_db example_settings busy_world)))
       = Inl (HTTPException 503 ''Service unavailable'')
   \<and> close_calls (snd (get_db_finally (fst (get_db example_settings busy_world))
        (Throw (HTTPException 503 ''Service unavailable''))
        (snd (health_check db_down (fst (get_db example_settings busy_world))
           (snd (get_db example_settings busy_world))))))
       = [0, 1, 2]
   \<and> fst (get_db_finally (fst (get_db example_settings busy_world))
        (Throw (HTTPException 503 ''Service unavailable''))
        (snd (health_check db_down (fst (get_db example_settings busy_world))
           (snd (get_db example_settings busy_world)))))
       = Some (HTTPException 503 ''Service unavailable'')"
proof -
  define db where "db = fst (get_db example_settings busy_world)"
  define w1 where "w1 = snd (get_db example_settings busy_world)"
  define w2 where "w2 = snd (health_check db_down db w1)"
  have wf: "\<forall>i \<in> set (close_calls busy_world). i < sessions busy_world"
    by (simp add: busy_world_def)
  have acq: "get_db example_settings busy_world = (db, w1)"
    by (simp add: db_def w1_def)
  have use: "count_list (close_calls w2) (ident db) = count_list (close_calls w1) (ident db)"
    by (simp add: w2_def health_check_def Session_execute_def probe_defs db_down_def)
  have hc: "fst (health_check db_down db w1) = Inl (HTTPException 503 ''Service unavailable'')"
    by (simp add: health_check_def Session_execute_def probe_defs db_down_def
        HTTP_503_SERVICE_UNAVAILABLE_def)
  have cc: "close_calls (snd (get_db_finally db
              (Throw (HTTPException 503 ''Service unavailable'')) w2)) = [0, 1, 2]"
    by (simp add: w2_def w1_def db_def get_db_def SessionLocal_def get_db_finally_def
        Session_close_def health_check_def Session_execute_def probe_defs db_down_def
        busy_world_def)
  note once = get_db_closes_once [OF wf acq use,
      of "Throw (HTTPException 503 ''Service unavailable'')"]
  from once have "ident db = sessions busy_world" by simp
  then have idn: "ident db = 2" by (simp add: busy_world_def)
  from once have res: "fst (get_db_finally db
      (Throw (HTTPException 503 ''Service unavailable'')) w2)
      = Some (HTTPException 503 ''Service unavailable'')" by simp
  have before: "close_calls busy_world = [0, 1]" "sessions busy_world = 2"
    by (simp_all add: busy_world_def)
  from before idn hc cc res show ?thesis
    unfolding w2_def w1_def db_def by blast
qed




section \<open>The application\<close>





text \<open>
  C7. For every database and every state of the process, \<^verbatim>\<open>GET /\<close> answers 200 with the
  body \<^verbatim>\<open>message: Therapist Office API\<close>, \<^verbatim>\<open>version: 1.0.0\<close>, \<^verbatim>\<open>status: running\<close>, and
  \<^verbatim>\<open>GET /api/info\<close> answers 200 with \<^verbatim>\<open>app_name\<close> the setting \<^verbatim>\<open>APP_NAME\<close>, \<^verbatim>\<open>version: 1.0.0\<close>,
  \<^verbatim>\<open>database_host\<close> the setting \<^verbatim>\<open>DATABASE_HOST\<close> and \<^verbatim>\<open>oci_region\<close> the setting
  \<^verbatim>\<open>OCI_REGION\<close>. Neither touches the database: the world is left as it was.
\<close>

theorem root_and_api_info:
  "serve s db Root w =
     (\<lparr>status_code = 200,
       content = JSON [(''message'', ''Therapist Office API''), (''version'', ''1.0.0''),
                       (''status'', ''running'')]\<rparr>, w)
   \<and> serve s db ApiInfo w =
     (\<lparr>status_code = 200,
       content = JSON [(''app_name'', APP_NAME s), (''version'', ''1.0.0''),
                       (''database_host'', DATABASE_HOST s),
                       (''oci_region'', OCI_REGION s)]\<rparr>, w)"
  by (simp add: serve_def root_def api_info_def)

theorem root_and_api_info_witness:
  "fst (serve example_settings db_down ApiInfo fresh_world) =
     \<lparr>status_code = 200,
      content = JSON [(''app_name'', ''Therapist Office App''), (''version'', ''1.0.0''),
                      (''database_host'', ''oracle-db''),
                      (''oci_region'', ''us-ashburn-1'')]\<rparr>
   \<and> snd (serve example_settings db_down Root fresh_world) = fresh_world"
  using root_and_api_info [of example_settings db_down fresh_world]
  by (simp add: example_settings_def)

text \<open>
  C9. For every value of \<^verbatim>\<open>CORS_ORIGINS\<close>, the allowed origins given to the CORS
  middleware are the pieces of that string between its commas: joined with commas they
  give the string back, no piece has a comma, and there is one piece more than there
  are commas. A value with no comma gives the one-element list of the whole string.
\<close>

theorem origins_split:
  "allow_origins (middleware (app s)) = str_split CHR '','' (CORS_ORIGINS s)
   \<and> str_join CHR '','' (allow_origins (middleware (app s))) = CORS_ORIGINS s
   \<and> (\<forall>p \<in> set (allow_origins (middleware (app s))). CHR '','' \<notin> set p)
   \<and> length (allow_origins (middleware (app s)))
       = Suc (count_list (CORS_ORIGINS s) CHR '','')
   \<and> (CHR '','' \<notin> set (CORS_ORIGINS s) \<longrightarrow>
        allow_origins (middleware (app s)) = [CORS_ORIGINS s])"
proof -
  obtain p ps where sp: "split_first CHR '','' (CORS_ORIGINS s) = (p, ps)"
    by (cases "split_first CHR '','' (CORS_ORIGINS s)")
  have o: "allow_origins (middleware (app s)) = p # ps"
    using sp by (simp add: app_def add_middleware_def origins_def str_split_def)
  have a: "allow_origins (middleware (app s)) = str_split CHR '','' (CORS_ORIGINS s)"
    by (simp add: app_def add_middleware_def origins_def)
  have b: "str_join CHR '','' (p # ps) = CORS_ORIGINS s"
    using sp by (rule split_first_join)
  have c: "\<forall>q \<in> set (p # ps). CHR '','' \<notin> set q"
    using split_first_no_sep [OF sp] by simp
  have d: "length (p # ps) = Suc (count_list (CORS_ORIGINS s) CHR '','')"
    using split_first_length [OF sp] by simp
  have e: "CHR '','' \<notin> set (CORS_ORIGINS s) \<longrightarrow> p # ps = [CORS_ORIGINS s]"
    using sp by (auto simp: split_first_absent)
  from a b c d e show ?thesis unfolding o by blast
qed

theorem origins_split_witness:
  "allow_origins (middleware (app two_origins)) = [''http://a.test'', ''http://b.test'']
   \<and> CHR '','' \<notin> set (CORS_ORIGINS example_settings)
   \<and> allow_origins (middleware (app example_settings)) = [''http://localhost:3000'']"
proof -
  have two: "allow_origins (middleware (app two_origins)) = [''http://a.test'', ''http://b.test'']"
    by (simp add: app_def add_middleware_def origins_def str_split_def two_origins_def
        example_settings_def)
  have none: "CHR '','' \<notin> set (CORS_ORIGINS example_settings)"
    by (simp add: example_settings_def)
  have cors: "CORS_ORIGINS example_settings = ''http://localhost:3000''"
    by (simp add: example_settings_def)
  from origins_split [of example_settings] none
  have "allow_origins (middleware (app example_settings)) = [CORS_ORIGINS example_settings]"
    by blast
  with cors have one:
    "allow_origins (middleware (app example_settings)) = [''http://localhost:3000'']"
    by simp
  from two none one show ?thesis by blast
qed

text \<open>
  C10. The secrets do not interfere with the HTTP surface: for two configurations that
  differ only in \<^verbatim>\<open>DATABASE_PASSWORD\<close>, \<^verbatim>\<open>SECRET_KEY\<close> and \<^verbatim>\<open>OCI_COMPARTMENT_ID\<close>, and the
  same outcome of the database, each of the three endpoints gives the same status code
  and body (and leaves the same world).
\<close>

theorem secrets_noninterference:
  assumes "differ_only_in_secrets s1 s2"
    and "trivial_query db1 = trivial_query db2"
  shows "serve s1 db1 r w = serve s2 db2 r w"
  using assms
  by (cases r) (simp_all add: differ_only_in_secrets_def serve_def root_def api_info_def
      endpoint_Health del: endpoint.simps(2))

theorem secrets_noninterference_witness:
  "differ_only_in_secrets example_settings other_secrets
   \<and> DATABASE_PASSWORD example_settings \<noteq> DATABASE_PASSWORD other_secrets
   \<and> serve example_settings db_down Health busy_world
       = serve other_secrets db_down Health busy_world
   \<and> serve example_settings db_up ApiInfo busy_world
       = serve other_secrets db_up ApiInfo busy_world"
proof -
  have d: "differ_only_in_secrets example_settings other_secrets"
    by (simp add: differ_only_in_secrets_def other_secrets_def)
  have p: "DATABASE_PASSWORD example_settings \<noteq> DATABASE_PASSWORD other_secrets"
    by (simp add: other_secrets_def example_settings_def)
  from secrets_noninterference [OF d refl, of db_down Health busy_world]
    secrets_noninterference [OF d refl, of db_up ApiInfo busy_world] d p
  show ?thesis by simp
qed


end
